theory Spec2Isabelle
  imports Main "HOL-Library.Sublist"
begin

section \<open>Data model of \<open>flytekit/clients/auth/authenticator.py\<close>\<close>

text \<open>
  Python \<open>str\<close> values are modelled as \<open>string\<close>, the UTF-8 bytes of the text, so that
  \<open>s.encode("utf-8")\<close> and the decoding of ASCII output are the identity.
  A value that may be \<open>None\<close> is an \<open>option\<close>.
\<close>

text \<open>
  Modelled from the spec: the class \<open>Credentials\<close> of \<open>.keyring\<close> is imported by the
  module and is not part of the sources at hand. The spec describes it as a value object
  that "holds exactly one opaque access-token string"; the module builds it with the one
  positional argument \<open>Credentials(token)\<close> and reads \<open>access_token\<close>. Like any Python
  object without \<open>__bool__\<close> or \<open>__len__\<close> an instance is truthy, so \<open>if self._creds\<close>
  tests for \<open>None\<close>.
\<close>

record credentials =
  access_token :: string

definition Credentials :: "string \<Rightarrow> credentials" where
  "Credentials token = \<lparr>access_token = token\<rparr>"

record client_config =
  token_endpoint :: string
  authorization_endpoint :: string
  redirect_uri :: string
  client_id :: string
  device_authorization_endpoint :: "string option"
  scopes :: "string list option"
  header_key :: string

text \<open>The exceptions the module raises or lets through.\<close>

datatype error =
    AuthenticationError string
  | AccessTokenNotFoundError
  | ValueError string
  | CalledProcessError int "string list"
  | AttributeError string
  | KeyError string
  | OtherError string

text \<open>
  One constructor for each \<open>logging\<close> call of the module, carrying the values that are
  formatted into the message.
\<close>

datatype log_record =
    WarnRefreshFailed
  | DebugStartingProcess "string list"
  | ErrorCommandFailed "string list"
  | ErrorNon200 int string
  | DebugBasicFlow string "string list option"
  | InfoRetrievedToken string

text \<open>
  The arguments \<open>PKCEAuthenticator._initialize_auth_client\<close> hands to
  \<open>AuthorizationClient\<close> (of \<open>.auth_client\<close>, not part of the sources at hand).
\<close>

datatype verify = VerifyFlag bool | VerifyBundle string

record authorization_client =
  ac_endpoint :: "string option"
  ac_redirect_uri :: string
  ac_client_id :: string
  ac_scopes :: "string list option"
  ac_auth_endpoint :: string
  ac_token_endpoint :: string
  ac_verify :: "verify option"

text \<open>
  What a call does outside the authenticator object, in the order it happens: calls of the
  keyring (\<open>KeyringStore.retrieve\<close>, \<open>store\<close>, \<open>delete\<close>), of the authorization client, of
  the configuration store, of \<open>subprocess.run\<close>, of \<open>requests.post\<close>, and log records.
  \<open>KeyringStore\<close> carries the argument of \<open>KeyringStore.store\<close>, which is \<open>self._creds\<close> and
  may be \<open>None\<close>.
\<close>

datatype event =
    KeyringRetrieve string
  | KeyringStore "credentials option"
  | KeyringDelete "string option"
  | GetClientConfig
  | RefreshAccessToken credentials
  | GetCredsFromRemote
  | SubprocessRun "string list"
  | RequestsPost string "(string \<times> string) list" "(string \<times> string) list"
  | Log log_record

section \<open>\<open>Authenticator\<close>\<close>

record authenticator =
  self_endpoint :: "string option"
  self_creds :: "credentials option"
  self_header_key :: string

text \<open>Python truthiness of an optional string: \<open>None\<close> and \<open>""\<close> are falsy.\<close>

definition truthy :: "string option \<Rightarrow> bool" where
  "truthy h = (case h of None \<Rightarrow> False | Some s \<Rightarrow> s \<noteq> [])"

definition Authenticator_init ::
  "string option \<Rightarrow> string option \<Rightarrow> credentials option \<Rightarrow> authenticator" where
  "Authenticator_init endpoint hkey credentials =
     \<lparr>self_endpoint = endpoint,
      self_creds = credentials,
      self_header_key =
        (case hkey of
           None \<Rightarrow> ''authorization''
         | Some h \<Rightarrow> if h \<noteq> [] then h else ''authorization'')\<rparr>"

definition get_credentials :: "'a authenticator_scheme \<Rightarrow> credentials option" where
  "get_credentials a = self_creds a"

definition set_credentials ::
  "credentials option \<Rightarrow> 'a authenticator_scheme \<Rightarrow> 'a authenticator_scheme" where
  "set_credentials c a = a\<lparr>self_creds := c\<rparr>"

definition set_header_key :: "string \<Rightarrow> 'a authenticator_scheme \<Rightarrow> 'a authenticator_scheme" where
  "set_header_key h a = a\<lparr>self_header_key := h\<rparr>"

text \<open>
  \<open>fetch_grpc_call_auth_metadata\<close>: the value returned, the authenticator after the call and
  the events of the call.
\<close>

definition fetch_grpc_call_auth_metadata ::
  "'a authenticator_scheme \<Rightarrow> (string \<times> string) option \<times> 'a authenticator_scheme \<times> event list" where
  "fetch_grpc_call_auth_metadata a =
     (case self_creds a of
        Some c \<Rightarrow> (Some (self_header_key a, ''Bearer '' @ access_token c), a, [])
      | None \<Rightarrow> (None, a, []))"

section \<open>\<open>CommandAuthenticator\<close>\<close>

record command_authenticator = authenticator +
  self_cmd :: "string list"

text \<open>
  \<open>__init__(command, header_key)\<close>: \<open>not self._cmd\<close> holds for \<open>None\<close> and for the empty
  list. The result comes with the events of the call.
\<close>

definition CommandAuthenticator_init ::
  "string list option \<Rightarrow> string option \<Rightarrow> (error + command_authenticator) \<times> event list" where
  "CommandAuthenticator_init command hkey =
     (case command of
        None \<Rightarrow> (Inl (AuthenticationError ''Command cannot be empty for command authenticator''), [])
      | Some cmd \<Rightarrow>
          if cmd = [] then
            (Inl (AuthenticationError ''Command cannot be empty for command authenticator''), [])
          else
            (Inr (authenticator.extend (Authenticator_init None hkey None)
                    (command_authenticator.fields cmd)), []))"

text \<open>
  The outcome of starting the process: it could not be started (any exception of
  \<open>subprocess.run\<close> other than \<open>CalledProcessError\<close>, also a failure to decode the output),
  or it ran and exited with a return code, its standard output and its standard error,
  both decoded texts.
\<close>

datatype proc_outcome =
    SpawnFailed error
  | Exited int string string

text \<open>\<open>subprocess.run(cmd, capture_output=True, text=True, check=True)\<close>.\<close>

definition subprocess_run :: "(string list \<Rightarrow> proc_outcome) \<Rightarrow> string list \<Rightarrow> error + string" where
  "subprocess_run os cmd =
     (case os cmd of
        SpawnFailed e \<Rightarrow> Inl e
      | Exited rc out err \<Rightarrow> if rc \<noteq> 0 then Inl (CalledProcessError rc cmd) else Inr out)"

text \<open>
  The characters \<open>str.strip()\<close> removes are those of \<open>str.isspace\<close>: U+0009 to U+000D,
  U+001C to U+0020, U+0085, U+00A0, U+1680, U+2000 to U+200A, U+2028, U+2029, U+202F,
  U+205F and U+3000. \<open>whitespace\<close> lists their UTF-8 encodings. No encoding in the list
  is the beginning of another, and in well-formed UTF-8 each of them occurs only as a
  character of its own.
\<close>

definition whitespace :: "string list" where
  "whitespace =
     map (map char_of)
       ([[0x09], [0x0A], [0x0B], [0x0C], [0x0D], [0x1C], [0x1D], [0x1E], [0x1F], [0x20],
         [0xC2, 0x85], [0xC2, 0xA0], [0xE1, 0x9A, 0x80]]
        @ map (\<lambda>n. [0xE2, 0x80, n]) [0x80 ..< 0x8B]
        @ [[0xE2, 0x80, 0xA8], [0xE2, 0x80, 0xA9], [0xE2, 0x80, 0xAF], [0xE2, 0x81, 0x9F],
           [0xE3, 0x80, 0x80 :: nat]])"

text \<open>\<open>lstrip ws s\<close> removes from the front of \<open>s\<close> every leading occurrence of a member of \<open>ws\<close>.\<close>

function lstrip :: "string list \<Rightarrow> string \<Rightarrow> string" where
  "lstrip ws s =
     (case filter (\<lambda>w. w \<noteq> [] \<and> prefix w s) ws of
        [] \<Rightarrow> s
      | w # _ \<Rightarrow> lstrip ws (drop (length w) s))"
  by pat_completeness auto
termination
proof (relation "measure (\<lambda>(ws, s). length s)")
  show "wf (measure (\<lambda>(ws, s). length s))" by simp
next
  fix ws :: "string list" and s :: string and w rest
  assume f: "filter (\<lambda>w. w \<noteq> [] \<and> prefix w s) ws = w # rest"
  have "w \<in> set (filter (\<lambda>w. w \<noteq> [] \<and> prefix w s) ws)"
    unfolding f by simp
  then have "w \<noteq> []" and "prefix w s" by simp_all
  then have "0 < length w" and "length w \<le> length s"
    by (simp_all add: prefix_length_le)
  then have "length s - length w < length s"
    by arith
  then show "((ws, drop (length w) s), (ws, s)) \<in> measure (\<lambda>(ws, s). length s)"
    by simp
qed

declare lstrip.simps [simp del]

text \<open>
  \<open>str.strip()\<close> on the UTF-8 bytes of a text: leading white space is removed, and trailing
  white space by the same function on the reversed bytes.
\<close>

definition strip :: "string \<Rightarrow> string" where
  "strip s = rev (lstrip (map rev whitespace) (rev (lstrip whitespace s)))"

text \<open>
  \<open>refresh_credentials\<close>: \<open>os\<close> is the operating system running the command, \<open>str_exc\<close> is
  Python's \<open>str\<close> of an exception. The result is the exception raised, if any, the
  authenticator after the call and the events of the call.
\<close>

definition CommandAuthenticator_refresh_credentials ::
  "(string list \<Rightarrow> proc_outcome) \<Rightarrow> (error \<Rightarrow> string) \<Rightarrow> command_authenticator
     \<Rightarrow> error option \<times> command_authenticator \<times> event list" where
  "CommandAuthenticator_refresh_credentials os str_exc a =
     (let ev = [Log (DebugStartingProcess (self_cmd a)), SubprocessRun (self_cmd a)] in
      case subprocess_run os (self_cmd a) of
        Inl (CalledProcessError rc cmd) \<Rightarrow>
          (Some (AuthenticationError
                   (''Problems refreshing token with command: '' @ str_exc (CalledProcessError rc cmd))),
           a, ev @ [Log (ErrorCommandFailed (self_cmd a))])
      | Inl e \<Rightarrow> (Some e, a, ev)
      | Inr out \<Rightarrow> (None, a\<lparr>self_creds := Some (Credentials (strip out))\<rparr>, ev))"

section \<open>\<open>ClientConfigStore\<close>\<close>

text \<open>
  \<open>StaticClientConfigStore\<close> returns the configuration it was built with. Any other
  subclass of the abstract \<open>ClientConfigStore\<close> is given by what its \<open>get_client_config\<close>
  does: it raises or returns a configuration.
\<close>

datatype client_config_store =
    StaticClientConfigStore client_config
  | OtherClientConfigStore "error + client_config"

fun get_client_config :: "client_config_store \<Rightarrow> error + client_config" where
  "get_client_config (StaticClientConfigStore cfg) = Inr cfg"
| "get_client_config (OtherClientConfigStore r) = r"

section \<open>\<open>ClientCredentialsAuthenticator\<close>\<close>

record client_credentials_authenticator = authenticator +
  self_token_endpoint :: string
  self_scopes :: "string list option"
  self_client_id :: string
  self_client_secret :: string

definition ClientCredentialsAuthenticator_init ::
  "string option \<Rightarrow> string option \<Rightarrow> string option \<Rightarrow> client_config_store \<Rightarrow> string option
     \<Rightarrow> (error + client_credentials_authenticator) \<times> event list" where
  "ClientCredentialsAuthenticator_init endpoint cid secret cfg_store hkey =
     (if \<not> truthy cid \<or> \<not> truthy secret then
        (Inl (ValueError ''Client ID and Client SECRET both are required.''), [])
      else
        case get_client_config cfg_store of
          Inl e \<Rightarrow> (Inl e, [GetClientConfig])
        | Inr cfg \<Rightarrow>
            (Inr (authenticator.extend
                    (Authenticator_init endpoint
                       (if header_key cfg \<noteq> [] then Some (header_key cfg) else hkey) None)
                    (client_credentials_authenticator.fields
                       (token_endpoint cfg) (scopes cfg) (the cid) (the secret))),
             [GetClientConfig]))"

text \<open>The response of \<open>requests.post\<close>: \<open>resp_text\<close> is \<open>response.text\<close>, \<open>json\<close> is what \<open>response.json()\<close> does.\<close>

record response =
  status_code :: int
  resp_text :: string
  json :: "error + (string \<times> string) list"

text \<open>\<open>sep.join(xs)\<close>.\<close>

fun join :: "string \<Rightarrow> string list \<Rightarrow> string" where
  "join sep [] = []"
| "join sep [x] = x"
| "join sep (x # y # ys) = x @ sep @ join sep (y # ys)"

text \<open>\<open>d[k]\<close> on the dictionary a JSON object decodes to.\<close>

definition getitem :: "(string \<times> string) list \<Rightarrow> string \<Rightarrow> error + string" where
  "getitem d k = (case map_of d k of None \<Rightarrow> Inl (KeyError k) | Some v \<Rightarrow> Inr v)"

text \<open>
  \<open>get_token(token_endpoint, authorization_header, scopes)\<close>: \<open>post\<close> is
  \<open>requests.post(url, data, headers)\<close>, which raises or returns a response.
\<close>

definition get_token ::
  "(string \<Rightarrow> (string \<times> string) list \<Rightarrow> (string \<times> string) list \<Rightarrow> error + response)
     \<Rightarrow> string \<Rightarrow> string \<Rightarrow> string list option \<Rightarrow> (error + string \<times> string) \<times> event list" where
  "get_token post tok_endpoint authorization_header scps =
     (let headers = [(''Authorization'', authorization_header),
                     (''Cache-Control'', ''no-cache''),
                     (''Accept'', ''application/json''),
                     (''Content-Type'', ''application/x-www-form-urlencoded'')];
          body = [(''grant_type'', ''client_credentials'')]
                 @ (case scps of None \<Rightarrow> [] | Some ss \<Rightarrow> [(''scope'', join '','' ss)]);
          ev = [RequestsPost tok_endpoint body headers]
      in case post tok_endpoint body headers of
           Inl e \<Rightarrow> (Inl e, ev)
         | Inr resp \<Rightarrow>
             if status_code resp \<noteq> 200 then
               (Inl (AuthenticationError ''Non-200 received from IDP''),
                ev @ [Log (ErrorNon200 (status_code resp) (resp_text resp))])
             else
               (case json resp of
                  Inl e \<Rightarrow> (Inl e, ev)
                | Inr d \<Rightarrow>
                    (case getitem d ''access_token'' of
                       Inl e \<Rightarrow> (Inl e, ev)
                     | Inr token \<Rightarrow>
                         (case getitem d ''expires_in'' of
                            Inl e \<Rightarrow> (Inl e, ev)
                          | Inr expires_in \<Rightarrow> (Inr (token, expires_in), ev)))))"

text \<open>
  \<open>base64.b64encode\<close> of the standard library (RFC 4648, with padding), on bytes.
\<close>

definition b64_alphabet :: string where
  "b64_alphabet = ''ABCDEFGHIJKLMNOPQRSTUVWXYZabcdefghijklmnopqrstuvwxyz0123456789+/''"

definition b64_char :: "nat \<Rightarrow> char" where
  "b64_char n = b64_alphabet ! (n mod 64)"

fun b64encode :: "string \<Rightarrow> string" where
  "b64encode [] = []"
| "b64encode [a] =
     (let x = (of_char a :: nat)
      in [b64_char (x div 4), b64_char ((x mod 4) * 16), CHR ''='', CHR ''=''])"
| "b64encode [a, b] =
     (let x = (of_char a :: nat); y = (of_char b :: nat)
      in [b64_char (x div 4), b64_char ((x mod 4) * 16 + y div 16),
          b64_char ((y mod 16) * 4), CHR ''=''])"
| "b64encode (a # b # c # rest) =
     (let x = (of_char a :: nat); y = (of_char b :: nat); z = (of_char c :: nat)
      in [b64_char (x div 4), b64_char ((x mod 4) * 16 + y div 16),
          b64_char ((y mod 16) * 4 + z div 64), b64_char (z mod 64)] @ b64encode rest)"

definition get_basic_authorization_header :: "string \<Rightarrow> string \<Rightarrow> string" where
  "get_basic_authorization_header cid secret =
     (let concated = cid @ '':'' @ secret in ''Basic '' @ b64encode concated)"

definition ClientCredentialsAuthenticator_refresh_credentials ::
  "(string \<Rightarrow> (string \<times> string) list \<Rightarrow> (string \<times> string) list \<Rightarrow> error + response)
     \<Rightarrow> client_credentials_authenticator
     \<Rightarrow> error option \<times> client_credentials_authenticator \<times> event list" where
  "ClientCredentialsAuthenticator_refresh_credentials post a =
     (let tok_endpoint = self_token_endpoint a;
          scps = self_scopes a;
          ev = [Log (DebugBasicFlow (self_client_id a) scps)];
          authorization_header =
            get_basic_authorization_header (self_client_id a) (self_client_secret a)
      in case get_token post tok_endpoint authorization_header scps of
           (Inl e, ev') \<Rightarrow> (Some e, a, ev @ ev')
         | (Inr (token, expires_in), ev') \<Rightarrow>
             (None, a\<lparr>self_creds := Some (Credentials token)\<rparr>,
              ev @ ev' @ [Log (InfoRetrievedToken expires_in)]))"

section \<open>\<open>PKCEAuthenticator\<close>\<close>

record pkce_authenticator = authenticator +
  self_cfg_store :: client_config_store
  self_auth_client :: "authorization_client option"
  self_verify :: "verify option"

text \<open>
  Modelled from the spec: \<open>KeyringStore\<close> of \<open>.keyring\<close> is not part of the sources at
  hand. The spec gives the Secure Credential Store as a collaborator with
  \<open>retrieve(endpoint) -> Credential | absent\<close>, \<open>store(Credential)\<close> and \<open>delete(endpoint)\<close>;
  none of them raises, whatever it is handed. \<open>retrieve\<close> is a parameter, \<open>store\<close> and \<open>delete\<close> are recorded as
  events.
\<close>

definition PKCEAuthenticator_init ::
  "(string \<Rightarrow> credentials option) \<Rightarrow> string \<Rightarrow> client_config_store \<Rightarrow> string option
     \<Rightarrow> verify option \<Rightarrow> pkce_authenticator \<times> event list" where
  "PKCEAuthenticator_init retrieve endpoint cfg_store hkey vfy =
     (authenticator.extend (Authenticator_init (Some endpoint) hkey (retrieve endpoint))
        (pkce_authenticator.fields cfg_store None vfy),
      [KeyringRetrieve endpoint])"

definition initialize_auth_client ::
  "pkce_authenticator \<Rightarrow> error option \<times> pkce_authenticator \<times> event list" where
  "initialize_auth_client a =
     (case self_auth_client a of
        Some ac \<Rightarrow> (None, a, [])
      | None \<Rightarrow>
          (case get_client_config (self_cfg_store a) of
             Inl e \<Rightarrow> (Some e, a, [GetClientConfig])
           | Inr cfg \<Rightarrow>
               (None,
                (set_header_key (header_key cfg) a)
                  \<lparr>self_auth_client := Some
                     \<lparr>ac_endpoint = self_endpoint a,
                      ac_redirect_uri = redirect_uri cfg,
                      ac_client_id = client_id cfg,
                      ac_scopes = scopes cfg,
                      ac_auth_endpoint = authorization_endpoint cfg,
                      ac_token_endpoint = token_endpoint cfg,
                      ac_verify = self_verify a\<rparr>\<rparr>,
                [GetClientConfig])))"

text \<open>
  The full grant of \<open>refresh_credentials\<close>, its last two statements:
  \<open>self._creds = self._auth_client.get_creds_from_remote()\<close> and
  \<open>KeyringStore.store(self._creds)\<close>. The result of the grant is stored without a test, so
  when it is \<open>None\<close> nothing is cached and \<open>None\<close> is handed to the store.
\<close>

definition full_grant ::
  "(authorization_client \<Rightarrow> error + credentials option) \<Rightarrow> pkce_authenticator
     \<Rightarrow> error option \<times> pkce_authenticator \<times> event list" where
  "full_grant get_creds_from_remote a =
     (case self_auth_client a of
        None \<Rightarrow> (Some (AttributeError ''get_creds_from_remote''), a, [])
      | Some ac \<Rightarrow>
          (case get_creds_from_remote ac of
             Inl e \<Rightarrow> (Some e, a, [GetCredsFromRemote])
           | Inr c \<Rightarrow>
               (None, a\<lparr>self_creds := c\<rparr>, [GetCredsFromRemote, KeyringStore c])))"

text \<open>
  \<open>refresh_credentials\<close>: \<open>refresh_access_token\<close> and \<open>get_creds_from_remote\<close> are the two
  methods of the authorization client; each raises, or returns a credential or \<open>None\<close>
  (the code tests the result of the first and not of the second). A method call on \<open>self._auth_client\<close> while it is
  \<open>None\<close> raises \<open>AttributeError\<close>.
\<close>

definition PKCEAuthenticator_refresh_credentials ::
  "(authorization_client \<Rightarrow> credentials \<Rightarrow> error + credentials option)
     \<Rightarrow> (authorization_client \<Rightarrow> error + credentials option) \<Rightarrow> pkce_authenticator
     \<Rightarrow> error option \<times> pkce_authenticator \<times> event list" where
  "PKCEAuthenticator_refresh_credentials refresh_access_token get_creds_from_remote a =
     (case initialize_auth_client a of
        (Some e, a1, ev1) \<Rightarrow> (Some e, a1, ev1)
      | (None, a1, ev1) \<Rightarrow>
          (case self_creds a1 of
             None \<Rightarrow>
               (case full_grant get_creds_from_remote a1 of
                  (r, a2, ev2) \<Rightarrow> (r, a2, ev1 @ ev2))
           | Some c \<Rightarrow>
               (case self_auth_client a1 of
                  None \<Rightarrow> (Some (AttributeError ''refresh_access_token''), a1, ev1)
                | Some ac \<Rightarrow>
                    (case refresh_access_token ac c of
                       Inr None \<Rightarrow>
                         (None, a1\<lparr>self_creds := None\<rparr>, ev1 @ [RefreshAccessToken c])
                     | Inr (Some c') \<Rightarrow>
                         (None, a1\<lparr>self_creds := Some c'\<rparr>,
                          ev1 @ [RefreshAccessToken c, KeyringStore (Some c')])
                     | Inl AccessTokenNotFoundError \<Rightarrow>
                         (case full_grant get_creds_from_remote a1 of
                            (r, a2, ev2) \<Rightarrow>
                              (r, a2,
                               ev1 @ [RefreshAccessToken c, Log WarnRefreshFailed,
                                      KeyringDelete (self_endpoint a1)] @ ev2))
                     | Inl e \<Rightarrow> (Some e, a1, ev1 @ [RefreshAccessToken c])))))"

section \<open>\<open>DeviceCodeAuthenticator\<close>\<close>

text \<open>
  \<open>__init__\<close> is \<open>pass\<close>: it does not call the base initialiser, so the object has no
  attribute, and \<open>get_credentials\<close> on it raises \<open>AttributeError\<close>.
\<close>

datatype device_code_authenticator = DeviceCodeAuthenticator

definition DeviceCodeAuthenticator_init ::
  "string \<Rightarrow> client_config_store \<Rightarrow> string option \<Rightarrow> string option \<Rightarrow> device_code_authenticator" where
  "DeviceCodeAuthenticator_init endpoint cfg_store hkey audience = DeviceCodeAuthenticator"

definition DeviceCodeAuthenticator_get_credentials ::
  "device_code_authenticator \<Rightarrow> error + credentials option" where
  "DeviceCodeAuthenticator_get_credentials a =
     Inl (AttributeError ''_creds'')"

text \<open>What the token endpoint answers to a poll of the device-code grant (RFC 8628).\<close>

datatype poll_response =
    TokenIssued string
  | AuthorizationPending
  | SlowDown
  | ExpiredToken
  | AccessDenied

text \<open>
  \<open>refresh_credentials\<close> is \<open>pass\<close>: whatever the token endpoint \<open>idp\<close> would answer to the
  polls, the call returns \<open>None\<close> at once, with no event.
\<close>

definition DeviceCodeAuthenticator_refresh_credentials ::
  "(nat \<Rightarrow> poll_response) \<Rightarrow> device_code_authenticator
     \<Rightarrow> error option \<times> device_code_authenticator \<times> event list" where
  "DeviceCodeAuthenticator_refresh_credentials idp a = (None, a, [])"

section \<open>Store writes of a call\<close>

text \<open>The arguments of \<open>KeyringStore.store\<close> in a sequence of events, in order.\<close>

fun stored :: "event list \<Rightarrow> credentials option list" where
  "stored [] = []"
| "stored (KeyringStore c # evs) = c # stored evs"
| "stored (_ # evs) = stored evs"

section \<open>Concrete inputs\<close>

definition cmd_auth0 :: command_authenticator where
  "cmd_auth0 =
     \<lparr>self_endpoint = None, self_creds = Some (Credentials ''old''),
      self_header_key = ''authorization'', self_cmd = [''get-token'', ''--quiet'']\<rparr>"


definition os_fail :: "string list \<Rightarrow> proc_outcome" where
  "os_fail cmd = Exited 1 [] ''permission denied''"

definition str_exc0 :: "error \<Rightarrow> string" where
  "str_exc0 e = ''Command returned non-zero exit status 1.''"

definition cc_auth0 :: client_credentials_authenticator where
  "cc_auth0 =
     \<lparr>self_endpoint = Some ''flyte.example.org'', self_creds = Some (Credentials ''old''),
      self_header_key = ''authorization'',
      self_token_endpoint = ''https://idp.example.org/token'',
      self_scopes = Some [''all'', ''offline''],
      self_client_id = ''abc'', self_client_secret = ''xyz''\<rparr>"

definition resp_500 :: response where
  "resp_500 = \<lparr>status_code = 500, resp_text = ''invalid_client'',
                json = Inl (OtherError ''JSONDecodeError'')\<rparr>"

definition idp_500 ::
  "string \<Rightarrow> (string \<times> string) list \<Rightarrow> (string \<times> string) list \<Rightarrow> error + response" where
  "idp_500 url body headers = Inr resp_500"



definition cfg0 :: client_config where
  "cfg0 =
     \<lparr>token_endpoint = ''https://idp.example.org/token'',
      authorization_endpoint = ''https://idp.example.org/authorize'',
      redirect_uri = ''http://localhost:53593/callback'',
      client_id = ''flytectl'',
      device_authorization_endpoint = None,
      scopes = Some [''all''],
      header_key = ''flyte-authorization''\<rparr>"

definition pkce_auth0 :: pkce_authenticator where
  "pkce_auth0 =
     \<lparr>self_endpoint = Some ''flyte.example.org'', self_creds = Some (Credentials ''old''),
      self_header_key = ''authorization'',
      self_cfg_store = StaticClientConfigStore cfg0,
      self_auth_client = None, self_verify = None\<rparr>"

definition auth_client0 :: authorization_client where
  "auth_client0 =
     \<lparr>ac_endpoint = Some ''flyte.example.org'',
      ac_redirect_uri = ''http://localhost:53593/callback'',
      ac_client_id = ''flytectl'',
      ac_scopes = Some [''all''],
      ac_auth_endpoint = ''https://idp.example.org/authorize'',
      ac_token_endpoint = ''https://idp.example.org/token'',
      ac_verify = None\<rparr>"

definition refresh_not_found ::
  "authorization_client \<Rightarrow> credentials \<Rightarrow> error + credentials option" where
  "refresh_not_found ac c = Inl AccessTokenNotFoundError"

definition remote_ok :: "authorization_client \<Rightarrow> error + credentials option" where
  "remote_ok ac = Inr (Some (Credentials ''new''))"


definition idp_denied :: "nat \<Rightarrow> poll_response" where
  "idp_denied n = AccessDenied"

section \<open>Helper lemmas\<close>


text \<open>The test vectors of RFC 4648, section 10.\<close>

lemma b64encode_rfc4648_vectors:
  "b64encode ''f'' = ''Zg==''" "b64encode ''fo'' = ''Zm8=''" "b64encode ''foo'' = ''Zm9v''"
  "b64encode ''foob'' = ''Zm9vYg==''" "b64encode ''fooba'' = ''Zm9vYmE=''"
  "b64encode ''foobar'' = ''Zm9vYmFy''"
  by (simp_all add: b64_char_def b64_alphabet_def)

text \<open>What a failing call returns, in full.\<close>

lemma command_refresh_nonzero:
  assumes "os (self_cmd a) = Exited rc out err" and "rc \<noteq> 0"
  shows "CommandAuthenticator_refresh_credentials os str_exc a =
           (Some (AuthenticationError (''Problems refreshing token with command: ''
                    @ str_exc (CalledProcessError rc (self_cmd a)))),
            a,
            [Log (DebugStartingProcess (self_cmd a)), SubprocessRun (self_cmd a),
             Log (ErrorCommandFailed (self_cmd a))])"
  using assms by (simp add: CommandAuthenticator_refresh_credentials_def subprocess_run_def)

lemma get_token_events:
  "RequestsPost u b h \<in> set (snd (get_token post te ah sc)) \<Longrightarrow>
     u = te \<and> h = [(''Authorization'', ah), (''Cache-Control'', ''no-cache''),
                   (''Accept'', ''application/json''),
                   (''Content-Type'', ''application/x-www-form-urlencoded'')]
     \<and> b = [(''grant_type'', ''client_credentials'')]
            @ (case sc of None \<Rightarrow> [] | Some ss \<Rightarrow> [(''scope'', join '','' ss)])"
  by (auto simp: get_token_def Let_def split: sum.splits if_splits option.splits)

lemma get_token_non200:
  assumes "RequestsPost u b h \<in> set (snd (get_token post te ah sc))"
    and "post u b h = Inr resp" and "status_code resp \<noteq> 200"
  shows "get_token post te ah sc =
           (Inl (AuthenticationError ''Non-200 received from IDP''),
            [RequestsPost u b h, Log (ErrorNon200 (status_code resp) (resp_text resp))])"
proof -
  from get_token_events [OF assms(1)] assms(2,3) show ?thesis
    by (simp add: get_token_def Let_def)
qed

lemma client_credentials_events:
  "RequestsPost u b h \<in> set (snd (snd (ClientCredentialsAuthenticator_refresh_credentials post a)))
   \<Longrightarrow> RequestsPost u b h \<in> set (snd (get_token post (self_token_endpoint a)
         (get_basic_authorization_header (self_client_id a) (self_client_secret a)) (self_scopes a)))"
  by (auto simp: ClientCredentialsAuthenticator_refresh_credentials_def Let_def
      split: sum.splits prod.splits)

lemma client_credentials_non200:
  assumes "RequestsPost u b h
             \<in> set (snd (snd (ClientCredentialsAuthenticator_refresh_credentials post a)))"
    and "post u b h = Inr resp" and "status_code resp \<noteq> 200"
  shows "ClientCredentialsAuthenticator_refresh_credentials post a =
           (Some (AuthenticationError ''Non-200 received from IDP''), a,
            [Log (DebugBasicFlow (self_client_id a) (self_scopes a)), RequestsPost u b h,
             Log (ErrorNon200 (status_code resp) (resp_text resp))])"
  using assms(2,3) client_credentials_events [OF assms(1)]
    get_token_non200 [of u b h post "self_token_endpoint a"
      "get_basic_authorization_header (self_client_id a) (self_client_secret a)"
      "self_scopes a" resp]
  by (simp add: ClientCredentialsAuthenticator_refresh_credentials_def Let_def)

lemma initialize_auth_client_keeps:
  "initialize_auth_client a = (r, a1, ev1) \<Longrightarrow>
     self_creds a1 = self_creds a \<and> self_endpoint a1 = self_endpoint a
     \<and> stored ev1 = []"
  by (auto simp: initialize_auth_client_def set_header_key_def
      split: option.splits sum.splits)

lemma initialize_auth_client_sets:
  "initialize_auth_client a = (None, a1, ev1) \<Longrightarrow> \<exists>ac. self_auth_client a1 = Some ac"
  by (auto simp: initialize_auth_client_def set_header_key_def
      split: option.splits sum.splits)







section \<open>The metadata pair\<close>

text \<open>
  C2. For every authenticator state, \<open>fetch_grpc_call_auth_metadata\<close> returns \<open>None\<close>
  exactly when no credential is cached, and otherwise the pair of the header key and
  \<open>"Bearer "\<close> followed by the cached credential's access token; the call has no event
  (no I/O) and leaves the authenticator as it was.
\<close>

theorem fetch_auth_metadata_ok:
  "(fst (fetch_grpc_call_auth_metadata a) = None) = (get_credentials a = None)
   \<and> fst (fetch_grpc_call_auth_metadata a) =
       map_option (\<lambda>c. (self_header_key a, ''Bearer '' @ access_token c)) (get_credentials a)
   \<and> snd (fetch_grpc_call_auth_metadata a) = (a, [])"
  by (simp add: fetch_grpc_call_auth_metadata_def get_credentials_def split: option.splits)

theorem fetch_auth_metadata_ok_witness:
  "fetch_grpc_call_auth_metadata cmd_auth0 =
     (Some (''authorization'', ''Bearer old''), cmd_auth0, [])"
  using fetch_auth_metadata_ok [of cmd_auth0]
  by (simp add: fetch_grpc_call_auth_metadata_def cmd_auth0_def Credentials_def)

section \<open>Construction of the external-command flow\<close>

text \<open>
  C3. Constructing \<open>CommandAuthenticator\<close> with an empty command (\<open>None\<close> or the empty
  argument vector) raises \<open>AuthenticationError\<close>, with no event before it, so no command
  execution; constructing it with a non-empty command does not raise, and gives an
  authenticator holding that command and no credential.
\<close>

theorem command_init_ok:
  "isl (fst (CommandAuthenticator_init command hkey)) = (command = None \<or> command = Some [])
   \<and> (case fst (CommandAuthenticator_init command hkey) of
         Inl e \<Rightarrow> e = AuthenticationError ''Command cannot be empty for command authenticator''
       | Inr a \<Rightarrow> command = Some (self_cmd a) \<and> get_credentials a = None)
   \<and> snd (CommandAuthenticator_init command hkey) = []"
  by (simp add: CommandAuthenticator_init_def get_credentials_def Authenticator_init_def
      authenticator.defs command_authenticator.defs split: option.splits)

theorem command_init_ok_witness:
  "isl (fst (CommandAuthenticator_init (Some []) None))
   \<and> isl (fst (CommandAuthenticator_init None (Some ''authorization'')))
   \<and> \<not> isl (fst (CommandAuthenticator_init (Some [''get-token'']) None))"
  using command_init_ok [of "Some []" None]
    command_init_ok [of None "Some ''authorization''"]
    command_init_ok [of "Some [''get-token'']" None]
  by simp

section \<open>The Basic-Auth header\<close>

text \<open>
  C4. For every client id and client secret, \<open>get_basic_authorization_header\<close> is
  \<open>"Basic "\<close> followed by the base64 encoding of the id, a colon and the secret; for the
  id \<open>"abc"\<close> and the secret \<open>"xyz"\<close> it is \<open>"Basic "\<close> followed by the base64 encoding
  of \<open>"abc:xyz"\<close>, which is \<open>"YWJjOnh5eg=="\<close>.
\<close>

theorem basic_authorization_header_ok:
  "get_basic_authorization_header cid secret = ''Basic '' @ b64encode (cid @ '':'' @ secret)
   \<and> get_basic_authorization_header ''abc'' ''xyz'' = ''Basic '' @ b64encode ''abc:xyz''
   \<and> get_basic_authorization_header ''abc'' ''xyz'' = ''Basic YWJjOnh5eg==''"
  by (simp add: get_basic_authorization_header_def b64_char_def b64_alphabet_def)

section \<open>Failure of the external command\<close>

text \<open>
  C10. In the external-command flow, when the command exits with a non-zero status,
  \<open>refresh_credentials\<close> raises \<open>AuthenticationError\<close> and the authenticator, so also its
  cached credential, is what it was before the call.
\<close>

theorem command_refresh_failure_keeps_credentials:
  assumes "os (self_cmd a) = Exited rc out err" and "rc \<noteq> 0"
  shows "(\<exists>m. fst (CommandAuthenticator_refresh_credentials os str_exc a)
                 = Some (AuthenticationError m))
         \<and> fst (snd (CommandAuthenticator_refresh_credentials os str_exc a)) = a
         \<and> get_credentials (fst (snd (CommandAuthenticator_refresh_credentials os str_exc a)))
             = get_credentials a"
  using assms command_refresh_nonzero [of os a rc out err str_exc] by simp

theorem command_refresh_failure_keeps_credentials_witness:
  "os_fail (self_cmd cmd_auth0) = Exited 1 [] ''permission denied'' \<and> (1::int) \<noteq> 0
   \<and> fst (CommandAuthenticator_refresh_credentials os_fail str_exc0 cmd_auth0)
       = Some (AuthenticationError
           ''Problems refreshing token with command: Command returned non-zero exit status 1.'')
   \<and> get_credentials (fst (snd (CommandAuthenticator_refresh_credentials os_fail str_exc0 cmd_auth0)))
       = Some (Credentials ''old'')"
proof -
  have h: "os_fail (self_cmd cmd_auth0) = Exited 1 [] ''permission denied''"
    by (simp add: os_fail_def)
  have n: "(1::int) \<noteq> 0" by simp
  show ?thesis
    using h n command_refresh_failure_keeps_credentials
        [of os_fail cmd_auth0 1 "[]" "''permission denied''" str_exc0]
    by (simp add: CommandAuthenticator_refresh_credentials_def subprocess_run_def
        os_fail_def str_exc0_def cmd_auth0_def get_credentials_def)
qed

section \<open>A response other than 200 in the client-credentials flow\<close>

text \<open>
  C5, as stated, fails: with the response 500 and the body \<open>invalid_client\<close> the error
  raised is \<open>AuthenticationError("Non-200 received from IDP")\<close>, and the body is no part
  of its message.
\<close>

theorem client_credentials_non200_message_counterexample:
  "idp_500 ''https://idp.example.org/token'' [] [] = Inr resp_500
   \<and> status_code resp_500 \<noteq> 200
   \<and> fst (ClientCredentialsAuthenticator_refresh_credentials idp_500 cc_auth0)
       = Some (AuthenticationError ''Non-200 received from IDP'')
   \<and> \<not> sublist (resp_text resp_500) ''Non-200 received from IDP''"
proof -
  have "\<not> sublist ''invalid_client'' ''Non-200 received from IDP''"
    by code_simp
  then show ?thesis
    by (simp add: ClientCredentialsAuthenticator_refresh_credentials_def get_token_def
        idp_500_def resp_500_def cc_auth0_def Let_def)
qed

text \<open>
  C5, amended. In the client-credentials flow, whenever the token endpoint answers the
  request of the call with a status other than 200, \<open>refresh_credentials\<close> raises
  \<open>AuthenticationError\<close> with the fixed message \<open>"Non-200 received from IDP"\<close>; the status
  and the response body go to the error log, which is the last event of the call.
\<close>

theorem client_credentials_non200_raises:
  assumes "RequestsPost u b h
             \<in> set (snd (snd (ClientCredentialsAuthenticator_refresh_credentials post a)))"
    and "post u b h = Inr resp" and "status_code resp \<noteq> 200"
  shows "fst (ClientCredentialsAuthenticator_refresh_credentials post a)
           = Some (AuthenticationError ''Non-200 received from IDP'')
         \<and> last (snd (snd (ClientCredentialsAuthenticator_refresh_credentials post a)))
           = Log (ErrorNon200 (status_code resp) (resp_text resp))"
  using assms client_credentials_non200 [of u b h post a resp] by simp

theorem client_credentials_non200_raises_witness:
  "RequestsPost ''https://idp.example.org/token''
       [(''grant_type'', ''client_credentials''), (''scope'', ''all,offline'')]
       [(''Authorization'', ''Basic YWJjOnh5eg==''), (''Cache-Control'', ''no-cache''),
        (''Accept'', ''application/json''),
        (''Content-Type'', ''application/x-www-form-urlencoded'')]
     \<in> set (snd (snd (ClientCredentialsAuthenticator_refresh_credentials idp_500 cc_auth0)))
   \<and> status_code resp_500 \<noteq> 200
   \<and> fst (ClientCredentialsAuthenticator_refresh_credentials idp_500 cc_auth0)
       = Some (AuthenticationError ''Non-200 received from IDP'')
   \<and> last (snd (snd (ClientCredentialsAuthenticator_refresh_credentials idp_500 cc_auth0)))
       = Log (ErrorNon200 500 ''invalid_client'')"
proof -
  let ?u = "''https://idp.example.org/token''"
  let ?b = "[(''grant_type'', ''client_credentials''), (''scope'', ''all,offline'')]"
  let ?h = "[(''Authorization'', ''Basic YWJjOnh5eg==''), (''Cache-Control'', ''no-cache''),
        (''Accept'', ''application/json''),
        (''Content-Type'', ''application/x-www-form-urlencoded'')]"
  have e: "RequestsPost ?u ?b ?h
     \<in> set (snd (snd (ClientCredentialsAuthenticator_refresh_credentials idp_500 cc_auth0)))"
    by (simp add: ClientCredentialsAuthenticator_refresh_credentials_def get_token_def
        idp_500_def resp_500_def cc_auth0_def Let_def get_basic_authorization_header_def
        b64_char_def b64_alphabet_def)
  have p: "idp_500 ?u ?b ?h = Inr resp_500" by (simp add: idp_500_def)
  have n: "status_code resp_500 \<noteq> 200" by (simp add: resp_500_def)
  show ?thesis
    using e n client_credentials_non200_raises [OF e p n]
    by (simp add: resp_500_def)
qed

text \<open>
  C6. In the client-credentials flow, when the token endpoint answers the request of the
  call with a status other than 200, \<open>refresh_credentials\<close> raises an
  \<open>AuthenticationError\<close> and the authenticator, so also its cached credential, is what
  it was before the call.
\<close>

theorem client_credentials_non200_keeps_credentials:
  assumes "RequestsPost u b h
             \<in> set (snd (snd (ClientCredentialsAuthenticator_refresh_credentials post a)))"
    and "post u b h = Inr resp" and "status_code resp \<noteq> 200"
  shows "(\<exists>m. fst (ClientCredentialsAuthenticator_refresh_credentials post a)
                 = Some (AuthenticationError m))
         \<and> fst (snd (ClientCredentialsAuthenticator_refresh_credentials post a)) = a
         \<and> get_credentials (fst (snd (ClientCredentialsAuthenticator_refresh_credentials post a)))
             = get_credentials a"
  using assms client_credentials_non200 [of u b h post a resp] by simp

theorem client_credentials_non200_keeps_credentials_witness:
  "status_code resp_500 \<noteq> 200
   \<and> (\<exists>m. fst (ClientCredentialsAuthenticator_refresh_credentials idp_500 cc_auth0)
             = Some (AuthenticationError m))
   \<and> get_credentials (fst (snd (ClientCredentialsAuthenticator_refresh_credentials idp_500 cc_auth0)))
       = Some (Credentials ''old'')"
proof -
  let ?u = "''https://idp.example.org/token''"
  let ?b = "[(''grant_type'', ''client_credentials''), (''scope'', ''all,offline'')]"
  let ?h = "[(''Authorization'', ''Basic YWJjOnh5eg==''), (''Cache-Control'', ''no-cache''),
        (''Accept'', ''application/json''),
        (''Content-Type'', ''application/x-www-form-urlencoded'')]"
  have e: "RequestsPost ?u ?b ?h
     \<in> set (snd (snd (ClientCredentialsAuthenticator_refresh_credentials idp_500 cc_auth0)))"
    by (simp add: ClientCredentialsAuthenticator_refresh_credentials_def get_token_def
        idp_500_def resp_500_def cc_auth0_def Let_def get_basic_authorization_header_def
        b64_char_def b64_alphabet_def)
  have p: "idp_500 ?u ?b ?h = Inr resp_500" by (simp add: idp_500_def)
  have n: "status_code resp_500 \<noteq> 200" by (simp add: resp_500_def)
  have c: "get_credentials cc_auth0 = Some (Credentials ''old'')"
    by (simp add: get_credentials_def cc_auth0_def)
  show ?thesis
    using n c client_credentials_non200_keeps_credentials [OF e p n]
    by simp
qed

section \<open>Token not found in the interactive flow\<close>

text \<open>
  C7. In the interactive PKCE flow, whenever a credential is cached and the refresh
  round-trip of the authorization client raises \<open>AccessTokenNotFoundError\<close>,
  \<open>refresh_credentials\<close> deletes the store entry of the endpoint and then runs the full
  grant: the call raises what the grant raises, if it does, and otherwise returns with
  the grant's result cached and handed to \<open>KeyringStore.store\<close> as the last event. The
  error of the refresh itself is not propagated.
\<close>

theorem pkce_refresh_token_not_found:
  assumes "initialize_auth_client a = (None, a1, ev1)"
    and "self_auth_client a1 = Some ac"
    and "self_creds a = Some c"
    and "refresh_access_token ac c = Inl AccessTokenNotFoundError"
  shows "PKCEAuthenticator_refresh_credentials refresh_access_token get_creds_from_remote a =
           (case get_creds_from_remote ac of
              Inl e \<Rightarrow>
                (Some e, a1,
                 ev1 @ [RefreshAccessToken c, Log WarnRefreshFailed,
                        KeyringDelete (self_endpoint a), GetCredsFromRemote])
            | Inr c' \<Rightarrow>
                (None, a1\<lparr>self_creds := c'\<rparr>,
                 ev1 @ [RefreshAccessToken c, Log WarnRefreshFailed,
                        KeyringDelete (self_endpoint a), GetCredsFromRemote,
                        KeyringStore c']))"
  using assms initialize_auth_client_keeps [of a None a1 ev1]
  by (auto simp: PKCEAuthenticator_refresh_credentials_def full_grant_def split: sum.splits)

theorem pkce_refresh_token_not_found_witness:
  "fst (initialize_auth_client pkce_auth0) = None
   \<and> self_creds pkce_auth0 = Some (Credentials ''old'')
   \<and> self_auth_client (fst (snd (initialize_auth_client pkce_auth0))) = Some auth_client0
   \<and> refresh_not_found auth_client0 (Credentials ''old'') = Inl AccessTokenNotFoundError
   \<and> fst (PKCEAuthenticator_refresh_credentials refresh_not_found remote_ok pkce_auth0) = None
   \<and> get_credentials
        (fst (snd (PKCEAuthenticator_refresh_credentials refresh_not_found remote_ok pkce_auth0)))
       = Some (Credentials ''new'')
   \<and> snd (snd (PKCEAuthenticator_refresh_credentials refresh_not_found remote_ok pkce_auth0))
       = [GetClientConfig, RefreshAccessToken (Credentials ''old''), Log WarnRefreshFailed,
          KeyringDelete (Some ''flyte.example.org''), GetCredsFromRemote,
          KeyringStore (Some (Credentials ''new''))]"
proof -
  let ?a1 = "fst (snd (initialize_auth_client pkce_auth0))"
  let ?ev1 = "snd (snd (initialize_auth_client pkce_auth0))"
  have i: "initialize_auth_client pkce_auth0 = (None, ?a1, ?ev1)"
    by (simp add: initialize_auth_client_def pkce_auth0_def)
  have f: "fst (initialize_auth_client pkce_auth0) = None"
    by (simp add: initialize_auth_client_def pkce_auth0_def)
  have e: "?ev1 = [GetClientConfig]"
    by (simp add: initialize_auth_client_def pkce_auth0_def)
  have c: "self_creds pkce_auth0 = Some (Credentials ''old'')"
    by (simp add: pkce_auth0_def)
  have ep: "self_endpoint pkce_auth0 = Some ''flyte.example.org''"
    by (simp add: pkce_auth0_def)
  have ac: "self_auth_client ?a1 = Some auth_client0"
    by (simp add: initialize_auth_client_def pkce_auth0_def auth_client0_def cfg0_def
        set_header_key_def)
  have r: "refresh_not_found auth_client0 (Credentials ''old'') = Inl AccessTokenNotFoundError"
    by (simp add: refresh_not_found_def)
  show ?thesis
    using f i ac c r e ep pkce_refresh_token_not_found
        [of pkce_auth0 ?a1 ?ev1 auth_client0 "Credentials ''old''" refresh_not_found remote_ok]
    by (simp add: remote_ok_def get_credentials_def)
qed

section \<open>The device-code flow\<close>

text \<open>
  C8. The claim is that \<open>refresh_credentials\<close> of the device-code flow polls the token
  endpoint and ends with a denial error when the endpoint answers \<open>access_denied\<close>. The
  method body is \<open>pass\<close>: with an endpoint that answers \<open>access_denied\<close> to every poll
  the call returns \<open>None\<close>, raises nothing and has no event, so it never polls.
\<close>

theorem device_code_refresh_is_stub:
  "DeviceCodeAuthenticator_refresh_credentials idp_denied
     (DeviceCodeAuthenticator_init ''flyte.example.org'' (StaticClientConfigStore cfg0) None None)
   = (None, DeviceCodeAuthenticator, [])"
  by (simp add: DeviceCodeAuthenticator_refresh_credentials_def DeviceCodeAuthenticator_init_def)

section \<open>What a successful refresh leaves behind\<close>




end
